theory Spec2Isabelle
  imports Complex_Main
begin

section \<open>Python values shared by both modules\<close>

text \<open>
  Exceptions are values. \<open>IndexError\<close> is what a list index out of range raises,
  \<open>ZeroDivisionError\<close> what \<open>/\<close> raises on a zero divisor, \<open>KeyError\<close> what a
  dictionary lookup raises, \<open>ValueError\<close> carries the message of the \<open>raise\<close>
  statements of \<open>common.py\<close>, and \<open>CheckEnvError\<close> stands for whatever the external
  interface check raises.
\<close>

datatype error = ZeroDivisionError | IndexError | KeyError string | ValueError string | CheckEnvError

text \<open>
  A Python float is modelled as a real number or \<open>nan\<close>; rounding is not modelled.
  Python integers are unbounded: \<open>int\<close>.
\<close>

datatype scalar = Num real | NaN

section \<open>logger.py\<close>

subsection \<open>The writer and the recorder state\<close>

text \<open>
  The \<open>SummaryWriter\<close> is the list of the \<open>add_scalar\<close> calls it has received, in
  order: tag, scalar value, global step. The recorder's \<open>start_time\<close> (wall clock) is
  left out; a line of \<open>logging.info\<close> is kept as the values it formats (episode counter,
  total steps, reward, episode steps, epsilon), without the elapsed hours.
\<close>

type_synonym entry = "string \<times> scalar \<times> int"

record Logger =
  target_path :: string
  n_eps :: int
  writer :: "entry list"
  log_lines :: "(int \<times> int \<times> real \<times> int \<times> real) list"

definition Logger_init :: "string \<Rightarrow> Logger" where
  "Logger_init log_dir = \<lparr>target_path = log_dir, n_eps = 0, writer = [], log_lines = []\<rparr>"

definition add_scalar :: "Logger \<Rightarrow> string \<Rightarrow> scalar \<Rightarrow> int \<Rightarrow> Logger" where
  "add_scalar L tag scalar_value global_step =
     L\<lparr>writer := writer L @ [(tag, scalar_value, global_step)]\<rparr>"

subsection \<open>Formatting an option identifier\<close>

text \<open>The f-strings of \<open>log_episode\<close> render the dictionary key; keys are integers.\<close>

fun str_nat :: "nat \<Rightarrow> string" where
  "str_nat n =
     (if n < 10 then [''0123456789'' ! n]
      else str_nat (n div 10) @ [''0123456789'' ! (n mod 10)])"

declare str_nat.simps [simp del]

definition str_int :: "int \<Rightarrow> string" where
  "str_int i = (if i < 0 then ''-'' @ str_nat (nat (- i)) else str_nat (nat i))"

subsection \<open>log\_episode\<close>

text \<open>
  \<open>np.mean\<close> of a list of integers; on the empty list numpy returns \<open>nan\<close> (with a
  warning), it does not raise. \<open>/\<close> on two Python integers is true division and raises
  on a zero divisor.
\<close>

definition np_mean :: "int list \<Rightarrow> scalar" where
  "np_mean lens =
     (if lens = [] then NaN else Num (real_of_int (sum_list lens) / real (length lens)))"

definition true_div :: "int \<Rightarrow> int \<Rightarrow> error + real" where
  "true_div a b = (if b = 0 then Inl ZeroDivisionError else Inr (real_of_int a / real_of_int b))"

definition avg_length_value :: "int list \<Rightarrow> scalar" where
  "avg_length_value lens = (if length lens > 0 then np_mean lens else Num 0)"

text \<open>
  The loop over \<open>option_lengths.items()\<close>. The dictionary is an association list in
  insertion order. An exception leaves the recorder as it was when the exception was
  raised, so the result is the recorder together with the exception, if any: the
  \<open>avg_length\<close> scalar of an option is written before the division of its \<open>active\<close>
  scalar is evaluated.
\<close>

fun log_options :: "Logger \<Rightarrow> int \<Rightarrow> (int \<times> int list) list \<Rightarrow> Logger \<times> error option" where
  "log_options L ep_steps [] = (L, None)"
| "log_options L ep_steps ((option, lens) # rest) =
     (let L1 = add_scalar L (''option_'' @ str_int option @ ''_avg_length'')
                 (avg_length_value lens) (n_eps L)
      in case true_div (sum_list lens) ep_steps of
           Inl e \<Rightarrow> (L1, Some e)
         | Inr v \<Rightarrow>
             log_options
               (add_scalar L1 (''option_'' @ str_int option @ ''_active'') (Num v) (n_eps L1))
               ep_steps rest)"

definition log_episode ::
  "Logger \<Rightarrow> int \<Rightarrow> real \<Rightarrow> (int \<times> int list) list \<Rightarrow> int \<Rightarrow> real \<Rightarrow> Logger \<times> error option" where
  "log_episode L steps reward option_lengths ep_steps epsilon =
     (let L1 = L\<lparr>n_eps := n_eps L + 1\<rparr>;
          L2 = L1\<lparr>log_lines := log_lines L1 @ [(n_eps L1, steps, reward, ep_steps, epsilon)]\<rparr>;
          L3 = add_scalar L2 ''episodic_rewards'' (Num reward) (n_eps L2);
          L4 = add_scalar L3 ''episode_lengths'' (Num (real_of_int ep_steps)) (n_eps L3)
      in log_options L4 ep_steps option_lengths)"

subsection \<open>log\_data\<close>

text \<open>
  A loss is \<open>None\<close> or a tensor holding one element. The truth value of such a tensor
  is that of its element: false exactly when the element is zero (\<open>nan\<close> is true);
  \<open>item()\<close> returns the element.
\<close>

datatype tensor = Tensor scalar

fun item :: "tensor \<Rightarrow> scalar" where
  "item (Tensor v) = v"

fun truthy :: "tensor option \<Rightarrow> bool" where
  "truthy None = False"
| "truthy (Some t) = (item t \<noteq> Num 0)"

definition log_data ::
  "Logger \<Rightarrow> int \<Rightarrow> tensor option \<Rightarrow> tensor option \<Rightarrow> real \<Rightarrow> real \<Rightarrow> Logger" where
  "log_data L step actor_loss critic_loss entropy epsilon =
     (let L1 = (if truthy actor_loss
                then add_scalar L ''actor_loss'' (item (the actor_loss)) step else L);
          L2 = (if truthy critic_loss
                then add_scalar L1 ''critic_loss'' (item (the critic_loss)) step else L1);
          L3 = add_scalar L2 ''policy_entropy'' (Num entropy) step
      in add_scalar L3 ''epsilon'' (Num epsilon) step)"

subsection \<open>A run of recorder calls\<close>

datatype call =
  Episode int real "(int \<times> int list) list" int real
| Step int "tensor option" "tensor option" real real

fun is_episode :: "call \<Rightarrow> bool" where
  "is_episode (Episode _ _ _ _ _) = True"
| "is_episode (Step _ _ _ _ _) = False"

fun do_call :: "Logger \<Rightarrow> call \<Rightarrow> Logger" where
  "do_call L (Episode steps reward option_lengths ep_steps epsilon) =
     fst (log_episode L steps reward option_lengths ep_steps epsilon)"
| "do_call L (Step step actor_loss critic_loss entropy epsilon) =
     log_data L step actor_loss critic_loss entropy epsilon"

text \<open>
  The recorder after a sequence of calls; a caller that catches the exception of a
  faulting \<open>log_episode\<close> goes on with the recorder as that call left it.
\<close>

fun run :: "Logger \<Rightarrow> call list \<Rightarrow> Logger" where
  "run L [] = L"
| "run L (c # cs) = run (do_call L c) cs"

section \<open>src/envs/common.py\<close>

subsection \<open>Strings\<close>

text \<open>
  A \<open>str\<close> is a list of characters with code points below 256. \<open>split\<close> is
  \<open>str.split(sep)\<close> for a separator of one character: it cuts at every occurrence and
  always returns at least one piece. \<open>lower\<close> is \<open>str.lower()\<close>: it moves the upper-case
  letters \<open>A\<close>-\<open>Z\<close> and U+00C0-U+00DE (without U+00D7) to their lower-case forms and
  leaves every other character. \<open>str_in sub s\<close> is \<open>sub in s\<close>. \<open>index\<close> is the
  subscript \<open>xs[i]\<close> for a non-negative literal \<open>i\<close>, which raises when out of range.
\<close>

fun split :: "char \<Rightarrow> string \<Rightarrow> string list" where
  "split sep [] = [[]]"
| "split sep (c # cs) =
     (if c = sep then [] # split sep cs
      else (case split sep cs of [] \<Rightarrow> [[c]] | w # ws \<Rightarrow> (c # w) # ws))"

definition upper_chars :: string where
  "upper_chars = ''ABCDEFGHIJKLMNOPQRSTUVWXYZ'' @
     [CHR 0xC0, CHR 0xC1, CHR 0xC2, CHR 0xC3, CHR 0xC4, CHR 0xC5, CHR 0xC6, CHR 0xC7,
      CHR 0xC8, CHR 0xC9, CHR 0xCA, CHR 0xCB, CHR 0xCC, CHR 0xCD, CHR 0xCE, CHR 0xCF,
      CHR 0xD0, CHR 0xD1, CHR 0xD2, CHR 0xD3, CHR 0xD4, CHR 0xD5, CHR 0xD6,
      CHR 0xD8, CHR 0xD9, CHR 0xDA, CHR 0xDB, CHR 0xDC, CHR 0xDD, CHR 0xDE]"

definition lower_chars :: string where
  "lower_chars = ''abcdefghijklmnopqrstuvwxyz'' @
     [CHR 0xE0, CHR 0xE1, CHR 0xE2, CHR 0xE3, CHR 0xE4, CHR 0xE5, CHR 0xE6, CHR 0xE7,
      CHR 0xE8, CHR 0xE9, CHR 0xEA, CHR 0xEB, CHR 0xEC, CHR 0xED, CHR 0xEE, CHR 0xEF,
      CHR 0xF0, CHR 0xF1, CHR 0xF2, CHR 0xF3, CHR 0xF4, CHR 0xF5, CHR 0xF6,
      CHR 0xF8, CHR 0xF9, CHR 0xFA, CHR 0xFB, CHR 0xFC, CHR 0xFD, CHR 0xFE]"

definition lower_char :: "char \<Rightarrow> char" where
  "lower_char c = (case map_of (zip upper_chars lower_chars) c of None \<Rightarrow> c | Some l \<Rightarrow> l)"

definition lower :: "string \<Rightarrow> string" where
  "lower s = map lower_char s"

fun str_in :: "string \<Rightarrow> string \<Rightarrow> bool" where
  "str_in sub [] = (sub = [])"
| "str_in sub (c # cs) = (take (length sub) (c # cs) = sub \<or> str_in sub cs)"

definition index :: "'a list \<Rightarrow> nat \<Rightarrow> error + 'a" where
  "index xs i = (if i < length xs then Inr (xs ! i) else Inl IndexError)"

subsection \<open>Module constants\<close>

text \<open>
  \<open>FOCUS_FILES_DIR\<close>, \<open>FOCUS_FILES_DIR_UNPRUNED\<close>, \<open>REWARD_MODE\<close> and
  \<open>MULTIPROCESSING_START_METHOD\<close> are imported from the top-level module \<open>common\<close>, outside
  these two files; they are parameters of the model.
\<close>

record constants =
  FOCUS_FILES_DIR :: string
  FOCUS_FILES_DIR_UNPRUNED :: string
  REWARD_MODE :: "string \<rightharpoonup> int"
  MULTIPROCESSING_START_METHOD :: string

subsection \<open>Focus files\<close>

definition get_atari_identifier :: "string \<Rightarrow> error + string" where
  "get_atari_identifier env_name =
     (case index (split CHR ''/'' env_name) 1 of
        Inl e \<Rightarrow> Inl e
      | Inr seg \<Rightarrow>
          (case index (split CHR ''-'' seg) 0 of
             Inl e \<Rightarrow> Inl e
           | Inr game \<Rightarrow> Inr (lower game)))"

definition get_pruned_focus_file_from_env_name :: "string \<Rightarrow> error + string" where
  "get_pruned_focus_file_from_env_name env_name =
     (case (if str_in ''ALE'' env_name then get_atari_identifier env_name else Inr env_name) of
        Inl e \<Rightarrow> Inl e
      | Inr env_identifier \<Rightarrow> Inr (env_identifier @ ''.yaml''))"

text \<open>\<open>pathlib.Path(dir, file)\<close> is kept as its two arguments.\<close>

datatype path = Path string string

definition get_focus_file_path :: "constants \<Rightarrow> string \<Rightarrow> string \<Rightarrow> error + path" where
  "get_focus_file_path K prune_concept env_name =
     (case (if str_in ''ALE'' env_name then get_atari_identifier env_name else Inr env_name) of
        Inl e \<Rightarrow> Inl e
      | Inr env_identifier \<Rightarrow>
          if prune_concept = ''default''
          then Inr (Path (FOCUS_FILES_DIR K) (env_identifier @ ''.yaml''))
          else if prune_concept = ''unpruned''
          then Inr (Path (FOCUS_FILES_DIR_UNPRUNED K)
                      (''default_focus_'' @ drop 4 env_name @ ''.yaml''))
          else Inl (ValueError (''Unknown prune concept '' @ prune_concept @ '' given.'')))"

subsection \<open>Object-centric environments and their factories\<close>

text \<open>
  The classes and functions of the external libraries are constructors that keep their
  arguments. A keyword dictionary is an association list; a keyword value is a string
  or \<open>None\<close>, or a boolean.
\<close>

datatype kwarg = KStr "string option" | KBool bool

record ScobiEnv =
  se_name :: string
  se_focus_dir :: string
  se_focus_file :: "string option"
  se_hide_properties :: "bool option"
  se_silent :: bool
  se_reward_mode :: int
  se_refresh_yaml :: bool
  se_hud :: bool
  se_kwargs :: "(string \<times> kwarg) list"

text \<open>\<open>Monitor(env)\<close>, with the seed of its last \<open>reset\<close>.\<close>

record Monitor =
  env :: ScobiEnv
  reset_seed :: "int option"

text \<open>
  \<open>set_random_seed\<close> of the external library seeds the global random generators, among
  them numpy's, which takes a seed from 0 to \<open>2**32 - 1\<close> and raises \<open>ValueError\<close>
  for any other. The result is the exception, if any; the state of the generators is left
  out.
\<close>

definition set_random_seed :: "int \<Rightarrow> error option" where
  "set_random_seed seed =
     (if 0 \<le> seed \<and> seed \<le> 2 ^ 32 - 1 then None
      else Some (ValueError ''Seed must be between 0 and 2**32 - 1''))"

text \<open>
  \<open>make_scobi_env\<close> seeds the generators and returns the closure \<open>_init\<close>: the record
  of the variables it captures; \<open>init\<close> is the call of the closure.
\<close>

record scobi_init =
  i_name :: string
  i_focus_dir :: string
  i_pruned_ff_name :: "string option"
  i_exclude_properties :: "bool option"
  i_rank :: int
  i_seed :: int
  i_silent :: bool
  i_refresh :: bool
  i_reward_mode :: int
  i_kwargs :: "(string \<times> kwarg) list"

definition make_scobi_env ::
  "string \<Rightarrow> string \<Rightarrow> string option \<Rightarrow> bool option \<Rightarrow> int \<Rightarrow> int \<Rightarrow> bool \<Rightarrow> bool \<Rightarrow> int \<Rightarrow>
   (string \<times> kwarg) list \<Rightarrow> error + scobi_init" where
  "make_scobi_env name focus_dir pruned_ff_name exclude_properties rank seed silent refresh
       reward_mode kwargs =
     (case set_random_seed seed of
        Some e \<Rightarrow> Inl e
      | None \<Rightarrow>
          Inr \<lparr>i_name = name, i_focus_dir = focus_dir, i_pruned_ff_name = pruned_ff_name,
               i_exclude_properties = exclude_properties, i_rank = rank, i_seed = seed,
               i_silent = silent, i_refresh = refresh, i_reward_mode = reward_mode,
               i_kwargs = kwargs\<rparr>)"

definition init :: "scobi_init \<Rightarrow> Monitor" where
  "init f =
     (let e = \<lparr>se_name = i_name f, se_focus_dir = i_focus_dir f,
               se_focus_file = i_pruned_ff_name f,
               se_hide_properties = i_exclude_properties f, se_silent = i_silent f,
               se_reward_mode = i_reward_mode f, se_refresh_yaml = i_refresh f,
               se_hud = True, se_kwargs = i_kwargs f\<rparr>;
          m = \<lparr>env = e, reset_seed = None\<rparr>
      in m\<lparr>reset_seed := Some (i_seed f + i_rank f)\<rparr>)"

subsection \<open>Vectorized environments\<close>

datatype vec_env_cls = SubprocVecEnv | DummyVecEnv

record atari_args =
  a_name :: string
  a_n_envs :: int
  a_seed :: int
  a_env_kwargs :: "(string \<times> kwarg) list"
  a_vec_env_cls :: vec_env_cls
  a_vec_env_kwargs :: "(string \<times> string) list option"
  a_wrapper_kwargs :: "(string \<times> int) list"

text \<open>
  \<open>VecEnv c fns m\<close> is the container of class \<open>c\<close> built from the factories
  \<open>fns\<close>, with \<open>start_method = m\<close> when given; \<open>make_atari_env\<close> is the call of the
  external pixel builder.
\<close>

datatype vec_env =
    VecEnv vec_env_cls "scobi_init list" "string option"
  | make_atari_env atari_args

datatype env_handle =
    VecNormalize vec_env bool bool bool
  | VecNormalize_load string vec_env bool
  | VecFrameStack vec_env int

text \<open>
  \<open>VecNormalize v o r t\<close> is \<open>VecNormalize(v, norm_obs=o, norm_reward=r, training=t)\<close>;
  \<open>VecNormalize_load p v t\<close> is \<open>VecNormalize.load(p, v)\<close> with \<open>training\<close> then set to
  \<open>t\<close>. What the handles expose: the wrapped container, its class, its factories.
\<close>

fun venv :: "env_handle \<Rightarrow> vec_env" where
  "venv (VecNormalize v _ _ _) = v"
| "venv (VecNormalize_load _ v _) = v"
| "venv (VecFrameStack v _) = v"

fun cls_of :: "vec_env \<Rightarrow> vec_env_cls" where
  "cls_of (VecEnv c _ _) = c"
| "cls_of (make_atari_env a) = a_vec_env_cls a"

fun env_fns :: "vec_env \<Rightarrow> scobi_init list" where
  "env_fns (VecEnv _ fns _) = fns"
| "env_fns (make_atari_env _) = []"

fun is_normalized :: "env_handle \<Rightarrow> bool" where
  "is_normalized (VecNormalize _ _ _ _) = True"
| "is_normalized (VecNormalize_load _ _ _) = True"
| "is_normalized (VecFrameStack _ _) = False"

subsection \<open>init\_vec\_env and init\_train\_eval\_envs\<close>

text \<open>
  The parameters of \<open>init_vec_env\<close> that \<open>init_train_eval_envs\<close> passes through its
  \<open>**kwargs\<close>. (A \<open>kwargs\<close> holding one of the five parameters that
  \<open>init_train_eval_envs\<close> passes itself is a \<open>TypeError\<close> at the call.)
\<close>

record env_kwargs =
  name :: string
  object_centric :: bool
  prune_concept :: "string option"
  exclude_properties :: "bool option"
  frameskip :: int
  framestack :: int
  normalize_observation :: bool
  normalize_reward :: bool
  vec_norm_path :: "string option"
  freeze_invisible_obj :: bool
  render_oc_overlay :: bool

definition str_opt :: "string option \<Rightarrow> string" where
  "str_opt s = (case s of None \<Rightarrow> ''None'' | Some t \<Rightarrow> t)"

definition range_py :: "int \<Rightarrow> int list" where
  "range_py n = map int [0..<nat n]"

text \<open>
  A list comprehension whose element expression may raise: the elements are computed in
  order and the first exception ends it.
\<close>

fun comprehension :: "('a \<Rightarrow> error + 'b) \<Rightarrow> 'a list \<Rightarrow> error + 'b list" where
  "comprehension f [] = Inr []"
| "comprehension f (x # xs) =
     (case f x of
        Inl e \<Rightarrow> Inl e
      | Inr y \<Rightarrow> (case comprehension f xs of Inl e \<Rightarrow> Inl e | Inr ys \<Rightarrow> Inr (y # ys)))"

text \<open>
  \<open>check_env\<close> is the external interface check: a parameter that tells whether the
  probe environment passes; when it does not, the check raises.
\<close>

definition init_vec_env ::
  "constants \<Rightarrow> (ScobiEnv \<Rightarrow> bool) \<Rightarrow> env_kwargs \<Rightarrow> int \<Rightarrow> int \<Rightarrow> int \<Rightarrow> bool \<Rightarrow> string option \<Rightarrow>
   error + env_handle" where
  "init_vec_env K check_env kw n_envs seed reward_mode train render_mode =
     (if object_centric kw then
        (case (if prune_concept kw = Some ''unpruned''
               then Inr (FOCUS_FILES_DIR_UNPRUNED K, None)
               else if prune_concept kw = Some ''default''
               then (case get_pruned_focus_file_from_env_name (name kw) of
                       Inl e \<Rightarrow> Inl e
                     | Inr ff \<Rightarrow> Inr (FOCUS_FILES_DIR K, Some ff))
               else Inl (ValueError (''Unknown prune concept '' @ [CHR 0x27] @
                           str_opt (prune_concept kw) @ [CHR 0x27] @ ''.''))) of
           Inl e \<Rightarrow> Inl e
         | Inr (focus_dir, pruned_ff_name) \<Rightarrow>
             (case make_scobi_env (name kw) focus_dir pruned_ff_name
                     (exclude_properties kw) 0 0 False True reward_mode
                     [(''freeze_invisible_obj'', KBool (freeze_invisible_obj kw))] of
                Inl e \<Rightarrow> Inl e
              | Inr probe \<Rightarrow>
                  (let monitor = init probe
                   in if \<not> check_env (env monitor) then Inl CheckEnvError
                      else
                        (case comprehension
                                (\<lambda>i. make_scobi_env (name kw) focus_dir pruned_ff_name
                                   (exclude_properties kw) i seed True False reward_mode
                                   [(''render_mode'', KStr render_mode),
                                    (''freeze_invisible_obj'', KBool (freeze_invisible_obj kw)),
                                    (''render_oc_overlay'', KBool (render_oc_overlay kw))])
                                (range_py n_envs) of
                           Inl e \<Rightarrow> Inl e
                         | Inr envs \<Rightarrow>
                             (let vec_env = (if n_envs > 1
                                             then VecEnv SubprocVecEnv envs
                                                    (Some (MULTIPROCESSING_START_METHOD K))
                                             else VecEnv DummyVecEnv envs None)
                              in Inr (case vec_norm_path kw of
                                        Some p \<Rightarrow> VecNormalize_load p vec_env train
                                      | None \<Rightarrow> VecNormalize vec_env (normalize_observation kw)
                                                  (normalize_reward kw) train))))))
      else
        (let vec_env_cls = (if n_envs > 1 then SubprocVecEnv else DummyVecEnv);
             vec_env_kwargs = (if n_envs > 1
                               then Some [(''start_method'', MULTIPROCESSING_START_METHOD K)]
                               else None);
             vec_env = make_atari_env
                         \<lparr>a_name = name kw, a_n_envs = n_envs, a_seed = seed,
                          a_env_kwargs = [(''render_mode'', KStr render_mode)],
                          a_vec_env_cls = vec_env_cls, a_vec_env_kwargs = vec_env_kwargs,
                          a_wrapper_kwargs = [(''frame_skip'', frameskip kw)]\<rparr>
         in Inr (VecFrameStack vec_env (framestack kw))))"


subsection \<open>Defaults and sample constants\<close>

text \<open>
  The defaults of the optional parameters of \<open>init_vec_env\<close>, and one choice of the
  module constants for evaluating the functions at concrete inputs (the theorems hold
  for every choice).
\<close>

definition default_kwargs :: "string \<Rightarrow> bool \<Rightarrow> env_kwargs" where
  "default_kwargs env_name oc =
     \<lparr>name = env_name, object_centric = oc, prune_concept = None, exclude_properties = None,
      frameskip = 4, framestack = 1, normalize_observation = False, normalize_reward = False,
      vec_norm_path = None, freeze_invisible_obj = False, render_oc_overlay = False\<rparr>"

definition sample_constants :: constants where
  "sample_constants =
     \<lparr>FOCUS_FILES_DIR = ''resources/focusfiles'',
      FOCUS_FILES_DIR_UNPRUNED = ''resources/focusfiles_unpruned'',
      REWARD_MODE = [''env'' \<mapsto> 0, ''human'' \<mapsto> 1, ''mixed'' \<mapsto> 2],
      MULTIPROCESSING_START_METHOD = ''spawn''\<rparr>"

section \<open>The metrics recorder: properties\<close>


lemma log_options_n_eps: "n_eps (fst (log_options L ep ol)) = n_eps L"
  by (induction ol arbitrary: L) (auto simp: add_scalar_def Let_def split: sum.splits)

lemma log_options_nonzero:
  "ep \<noteq> 0 \<Longrightarrow>
   log_options L ep ol =
     (L\<lparr>writer := writer L @
         concat (map (\<lambda>(k, lens).
           [(''option_'' @ str_int k @ ''_avg_length'', avg_length_value lens, n_eps L),
            (''option_'' @ str_int k @ ''_active'',
               Num (real_of_int (sum_list lens) / real_of_int ep), n_eps L)]) ol)\<rparr>, None)"
  by (induction ol arbitrary: L) (auto simp: add_scalar_def Let_def true_div_def)

lemma log_options_zero:
  "log_options L 0 ((k, lens) # rest) =
     (add_scalar L (''option_'' @ str_int k @ ''_avg_length'') (avg_length_value lens) (n_eps L),
      Some ZeroDivisionError)"
  by (simp add: true_div_def)

lemma log_options_steps:
  "\<exists>es. writer (fst (log_options L ep ol)) = writer L @ es \<and> (\<forall>e\<in>set es. snd (snd e) = n_eps L)"
proof (induction ol arbitrary: L)
  case Nil
  then show ?case by simp
next
  case (Cons a ol)
  obtain k lens where a: "a = (k, lens)" by (cases a)
  show ?case
  proof (cases "true_div (sum_list lens) ep")
    case (Inl e)
    then show ?thesis using a by (simp add: add_scalar_def)
  next
    case (Inr v)
    let ?L2 = "add_scalar (add_scalar L (''option_'' @ str_int k @ ''_avg_length'')
                 (avg_length_value lens) (n_eps L)) (''option_'' @ str_int k @ ''_active'') (Num v) (n_eps L)"
    from Cons.IH [of ?L2] obtain es where
      es: "writer (fst (log_options ?L2 ep ol)) = writer ?L2 @ es" "\<forall>e\<in>set es. snd (snd e) = n_eps ?L2"
      by blast
    have "log_options L ep (a # ol) = log_options ?L2 ep ol"
      using a Inr by (simp add: add_scalar_def)
    then show ?thesis using es by (simp add: add_scalar_def)
  qed
qed

lemma run_n_eps: "n_eps (run L cs) = n_eps L + int (length (filter is_episode cs))"
proof (induction cs arbitrary: L)
  case Nil
  then show ?case by simp
next
  case (Cons c cs)
  then show ?case
    by (cases c) (simp_all add: log_episode_def log_data_def Let_def add_scalar_def log_options_n_eps)
qed


lemma log_data_writer:
  "writer (log_data L step actor_loss critic_loss entropy epsilon) =
     writer L
     @ (if truthy actor_loss then [(''actor_loss'', item (the actor_loss), step)] else [])
     @ (if truthy critic_loss then [(''critic_loss'', item (the critic_loss), step)] else [])
     @ [(''policy_entropy'', Num entropy, step), (''epsilon'', Num epsilon, step)]"
  by (simp add: log_data_def add_scalar_def Let_def)

text \<open>
  C1. The actor-loss and critic-loss scalars are emitted when the loss is present, and the
  entropy and exploration-rate scalars always, keyed by the step index. The code tests the
  truth value of the loss, not its presence (\<open>log_data_writer\<close>): a loss that is present
  and equal to zero is skipped. Here both losses are present and zero, and neither scalar is
  emitted.
\<close>

theorem log_data_zero_loss_not_emitted:
  "writer (log_data (Logger_init ''runs'') 7 (Some (Tensor (Num 0))) (Some (Tensor (Num 0))) 0.5 0.1) =
     [(''policy_entropy'', Num 0.5, 7), (''epsilon'', Num 0.1, 7)]"
  by (simp add: log_data_def add_scalar_def Logger_init_def)

text \<open>
  C6. The episode counter is 0 at construction; every \<open>log_episode\<close> adds exactly 1 to
  it before anything is recorded, also when the call faults, so every scalar of the call
  is keyed by the new value and the first call records under 1; \<open>log_data\<close> leaves it
  as it is; after any sequence of calls it is the number of \<open>log_episode\<close> calls made.
\<close>

theorem episode_counter:
  "n_eps (Logger_init log_dir) = 0 \<and>
   n_eps (fst (log_episode L steps reward option_lengths ep_steps epsilon)) = n_eps L + 1 \<and>
   (\<forall>e \<in> set (drop (length (writer L))
        (writer (fst (log_episode L steps reward option_lengths ep_steps epsilon)))).
      snd (snd e) = n_eps L + 1) \<and>
   take 2 (writer (fst (log_episode (Logger_init log_dir) steps reward option_lengths ep_steps epsilon))) =
     [(''episodic_rewards'', Num reward, 1), (''episode_lengths'', Num (real_of_int ep_steps), 1)] \<and>
   n_eps (log_data L step actor_loss critic_loss entropy epsilon) = n_eps L \<and>
   n_eps (run (Logger_init log_dir) calls) = int (length (filter is_episode calls))"
proof -
  let ?L4 = "add_scalar (add_scalar
      (L\<lparr>n_eps := n_eps L + 1,
         log_lines := log_lines L @ [(n_eps L + 1, steps, reward, ep_steps, epsilon)]\<rparr>)
      ''episodic_rewards'' (Num reward) (n_eps L + 1))
      ''episode_lengths'' (Num (real_of_int ep_steps)) (n_eps L + 1)"
  have unfold: "log_episode L steps reward option_lengths ep_steps epsilon =
      log_options ?L4 ep_steps option_lengths"
    by (simp add: log_episode_def Let_def add_scalar_def)
  have init: "n_eps (Logger_init log_dir) = 0"
    by (simp add: Logger_init_def)
  have incr: "n_eps (fst (log_episode L steps reward option_lengths ep_steps epsilon)) = n_eps L + 1"
    by (simp add: unfold log_options_n_eps add_scalar_def)
  obtain es where es: "writer (fst (log_options ?L4 ep_steps option_lengths)) = writer ?L4 @ es"
      "\<forall>e\<in>set es. snd (snd e) = n_eps ?L4"
    using log_options_steps [of ?L4 ep_steps option_lengths] by blast
  have keyed: "\<forall>e \<in> set (drop (length (writer L))
        (writer (fst (log_episode L steps reward option_lengths ep_steps epsilon)))).
      snd (snd e) = n_eps L + 1"
    using es by (auto simp: unfold add_scalar_def)
  let ?I4 = "add_scalar (add_scalar
      ((Logger_init log_dir)\<lparr>n_eps := 1,
         log_lines := [(1, steps, reward, ep_steps, epsilon)]\<rparr>)
      ''episodic_rewards'' (Num reward) 1)
      ''episode_lengths'' (Num (real_of_int ep_steps)) 1"
  have unfold0: "log_episode (Logger_init log_dir) steps reward option_lengths ep_steps epsilon =
      log_options ?I4 ep_steps option_lengths"
    by (simp add: log_episode_def Let_def add_scalar_def Logger_init_def)
  obtain fs where fs: "writer (fst (log_options ?I4 ep_steps option_lengths)) = writer ?I4 @ fs"
    using log_options_steps [of ?I4 ep_steps option_lengths] by blast
  have first: "take 2 (writer (fst (log_episode (Logger_init log_dir) steps reward option_lengths
        ep_steps epsilon))) =
     [(''episodic_rewards'', Num reward, 1), (''episode_lengths'', Num (real_of_int ep_steps), 1)]"
    by (simp add: unfold0 fs) (simp add: add_scalar_def Logger_init_def)
  have data: "n_eps (log_data L step actor_loss critic_loss entropy epsilon) = n_eps L"
    by (simp add: log_data_def add_scalar_def Let_def)
  have runs: "n_eps (run (Logger_init log_dir) calls) = int (length (filter is_episode calls))"
    by (simp add: run_n_eps init)
  from init incr keyed first data runs show ?thesis by blast
qed

theorem episode_counter_witness:
  "n_eps (fst (log_episode (Logger_init ''runs'') 10 1 [(0, [3, 4])] 7 0.1)) = 1 \<and>
   map (\<lambda>e. snd (snd e))
     (writer (fst (log_episode (Logger_init ''runs'') 10 1 [(0, [3, 4])] 7 0.1))) = [1, 1, 1, 1]"
  using episode_counter [of "''runs''" "Logger_init ''runs''" 10 1 "[(0, [3, 4])]" 7 "0.1"]
  by (simp add: Logger_init_def log_episode_def add_scalar_def true_div_def)

text \<open>
  C3. With an episode step count above 0 the call does not fault, and the scalars it
  records are, after reward and episode length, for each option in turn its mean length
  and its \<open>active\<close> scalar: the sum of the option's activation lengths divided by the
  episode step count. With an episode step count of 0 and an option whose sequence is not
  empty the call raises \<open>ZeroDivisionError\<close>.
\<close>

theorem log_episode_active:
  "(0 < ep_steps \<longrightarrow>
      log_episode L steps reward option_lengths ep_steps epsilon =
        (L\<lparr>n_eps := n_eps L + 1,
           log_lines := log_lines L @ [(n_eps L + 1, steps, reward, ep_steps, epsilon)],
           writer := writer L @
             [(''episodic_rewards'', Num reward, n_eps L + 1),
              (''episode_lengths'', Num (real_of_int ep_steps), n_eps L + 1)] @
             concat (map (\<lambda>(option, lens).
               [(''option_'' @ str_int option @ ''_avg_length'', avg_length_value lens, n_eps L + 1),
                (''option_'' @ str_int option @ ''_active'',
                 Num (real_of_int (sum_list lens) / real_of_int ep_steps), n_eps L + 1)])
               option_lengths)\<rparr>, None)) \<and>
   (ep_steps = 0 \<and> (\<exists>(option, lens) \<in> set option_lengths. lens \<noteq> []) \<longrightarrow>
      snd (log_episode L steps reward option_lengths ep_steps epsilon) = Some ZeroDivisionError)"
proof (intro conjI impI)
  assume "0 < ep_steps"
  then have "ep_steps \<noteq> 0" by simp
  then show "log_episode L steps reward option_lengths ep_steps epsilon =
        (L\<lparr>n_eps := n_eps L + 1,
           log_lines := log_lines L @ [(n_eps L + 1, steps, reward, ep_steps, epsilon)],
           writer := writer L @
             [(''episodic_rewards'', Num reward, n_eps L + 1),
              (''episode_lengths'', Num (real_of_int ep_steps), n_eps L + 1)] @
             concat (map (\<lambda>(option, lens).
               [(''option_'' @ str_int option @ ''_avg_length'', avg_length_value lens, n_eps L + 1),
                (''option_'' @ str_int option @ ''_active'',
                 Num (real_of_int (sum_list lens) / real_of_int ep_steps), n_eps L + 1)])
               option_lengths)\<rparr>, None)"
    by (simp add: log_episode_def Let_def log_options_nonzero add_scalar_def)
next
  assume a: "ep_steps = 0 \<and> (\<exists>(option, lens) \<in> set option_lengths. lens \<noteq> [])"
  then obtain k lens rest where "option_lengths = (k, lens) # rest"
    by (cases option_lengths) auto
  then show "snd (log_episode L steps reward option_lengths ep_steps epsilon) = Some ZeroDivisionError"
    using a by (simp add: log_episode_def Let_def true_div_def)
qed


theorem log_episode_active_witness:
  "(0::int) < 7 \<and>
   log_episode (Logger_init ''runs'') 10 1 [(0, [3, 4]), (1, [])] 7 0.1 =
     (\<lparr>target_path = ''runs'', n_eps = 1,
       writer = [(''episodic_rewards'', Num 1, 1), (''episode_lengths'', Num 7, 1),
                 (''option_0_avg_length'', Num 3.5, 1), (''option_0_active'', Num 1, 1),
                 (''option_1_avg_length'', Num 0, 1), (''option_1_active'', Num 0, 1)],
       log_lines = [(1, 10, 1, 7, 0.1)]\<rparr>, None) \<and>
   snd (log_episode (Logger_init ''runs'') 10 1 [(0, [3, 4]), (1, [])] 0 0.1) = Some ZeroDivisionError"
  using log_episode_active [of 7 "Logger_init ''runs''" 10 1 "[(0, [3, 4]), (1, [])]" "0.1"]
    log_episode_active [of 0 "Logger_init ''runs''" 10 1 "[(0, [3, 4]), (1, [])]" "0.1"]
  by (simp add: Logger_init_def str_int_def str_nat.simps avg_length_value_def np_mean_def)

text \<open>
  C4. The mean-length scalar of an option is 0 for an empty sequence and the arithmetic
  mean of the lengths otherwise; it is never \<open>nan\<close> and its computation has no fault.
  It is the value recorded under the option's \<open>avg_length\<close> tag, for every option when
  the episode step count is not 0, and for the first option also when the call then faults
  on the division by the step count.
\<close>

theorem avg_length_mean:
  "avg_length_value [] = Num 0 \<and>
   (lens \<noteq> [] \<longrightarrow>
      avg_length_value lens = Num (real_of_int (sum_list lens) / real (length lens))) \<and>
   avg_length_value lens \<noteq> NaN \<and>
   (ep_steps \<noteq> 0 \<and> (option, lens) \<in> set option_lengths \<longrightarrow>
      (''option_'' @ str_int option @ ''_avg_length'',
       (if lens = [] then Num 0 else Num (real_of_int (sum_list lens) / real (length lens))),
       n_eps L + 1)
      \<in> set (writer (fst (log_episode L steps reward option_lengths ep_steps epsilon)))) \<and>
   (ep_steps = 0 \<and> option_lengths = (option, lens) # rest \<longrightarrow>
      (''option_'' @ str_int option @ ''_avg_length'',
       (if lens = [] then Num 0 else Num (real_of_int (sum_list lens) / real (length lens))),
       n_eps L + 1)
      \<in> set (writer (fst (log_episode L steps reward option_lengths ep_steps epsilon))))"
proof -
  have val: "avg_length_value xs =
      (if xs = [] then Num 0 else Num (real_of_int (sum_list xs) / real (length xs)))" for xs
    by (simp add: avg_length_value_def np_mean_def)
  have nonzero: "(''option_'' @ str_int option @ ''_avg_length'', avg_length_value lens, n_eps L + 1)
      \<in> set (writer (fst (log_episode L steps reward option_lengths ep_steps epsilon)))"
    if "ep_steps \<noteq> 0" "(option, lens) \<in> set option_lengths"
    using that by (force simp: log_episode_def Let_def log_options_nonzero add_scalar_def)
  have zero: "(''option_'' @ str_int option @ ''_avg_length'', avg_length_value lens, n_eps L + 1)
      \<in> set (writer (fst (log_episode L steps reward option_lengths ep_steps epsilon)))"
    if "ep_steps = 0" "option_lengths = (option, lens) # rest"
    using that by (simp add: log_episode_def Let_def true_div_def add_scalar_def)
  show ?thesis
    using nonzero zero by (simp add: val)
qed

theorem avg_length_mean_witness:
  "avg_length_value [3, 4] = Num 3.5 \<and>
   (''option_1_avg_length'', Num 0, 1)
     \<in> set (writer (fst (log_episode (Logger_init ''runs'') 10 1 [(0, [3, 4]), (1, [])] 7 0.1))) \<and>
   (''option_1_avg_length'', Num 0, 1)
     \<in> set (writer (fst (log_episode (Logger_init ''runs'') 10 1 [(1, []), (0, [3, 4])] 0 0.1)))"
  using avg_length_mean [of "[3, 4]" 7 1 "[(0, [3, 4]), (1, [])]" "Logger_init ''runs''" 10 1 "0.1" "[]"]
    avg_length_mean [of "[]" 7 1 "[(0, [3, 4]), (1, [])]" "Logger_init ''runs''" 10 1 "0.1" "[]"]
    avg_length_mean [of "[]" 0 1 "[(1, []), (0, [3, 4])]" "Logger_init ''runs''" 10 1 "0.1" "[(0, [3, 4])]"]
  by (simp add: Logger_init_def str_int_def str_nat.simps)

section \<open>The environment factory: properties\<close>

subsection \<open>Splitting and the Atari identifier\<close>

lemma split_not_Nil: "split sep s \<noteq> []"
  by (induction s) (auto split: list.splits)

lemma split_hd: "hd (split sep s) = takeWhile (\<lambda>c. c \<noteq> sep) s"
  by (induction s) (auto split: list.splits simp: split_not_Nil)

lemma split_no_sep: "sep \<notin> set s \<Longrightarrow> split sep s = [s]"
  by (induction s) auto

lemma split_append: "sep \<notin> set a \<Longrightarrow> split sep (a @ sep # b) = a # split sep b"
  by (induction a) auto

lemma index_0_split: "index (split sep s) 0 = Inr (takeWhile (\<lambda>c. c \<noteq> sep) s)"
  using split_not_Nil [of sep s] split_hd [of sep s]
  by (cases "split sep s") (auto simp: index_def)

lemma index_1_split_none: "sep \<notin> set s \<Longrightarrow> index (split sep s) (Suc 0) = Inl IndexError"
  by (simp add: split_no_sep index_def)

lemma index_1_split_some:
  "sep \<in> set s \<Longrightarrow>
   index (split sep s) (Suc 0) =
     Inr (takeWhile (\<lambda>c. c \<noteq> sep) (tl (dropWhile (\<lambda>c. c \<noteq> sep) s)))"
proof -
  assume "sep \<in> set s"
  then obtain a b where s: "s = a @ sep # b" "sep \<notin> set a"
    by (meson split_list_first)
  have "split sep s = a # split sep b"
    using s by (simp add: split_append)
  moreover have "dropWhile (\<lambda>c. c \<noteq> sep) s = sep # b"
    using s by (auto simp: dropWhile_append3)
  ultimately show ?thesis
    using split_not_Nil [of sep b] split_hd [of sep b]
    by (cases "split sep b") (auto simp: index_def)
qed

lemma get_atari_identifier_fault:
  "CHR ''/'' \<notin> set env_name \<Longrightarrow> get_atari_identifier env_name = Inl IndexError"
  by (simp add: get_atari_identifier_def index_1_split_none)

lemma get_atari_identifier_value:
  "CHR ''/'' \<in> set env_name \<Longrightarrow>
   get_atari_identifier env_name =
     Inr (lower (takeWhile (\<lambda>c. c \<noteq> CHR ''-'')
            (takeWhile (\<lambda>c. c \<noteq> CHR ''/'') (tl (dropWhile (\<lambda>c. c \<noteq> CHR ''/'') env_name)))))"
  by (simp add: get_atari_identifier_def index_1_split_some index_0_split)

lemma takeWhile_twice: "takeWhile P (takeWhile Q xs) = takeWhile (\<lambda>x. Q x \<and> P x) xs"
  by (induction xs) auto

lemma get_atari_identifier_ALE:
  "get_atari_identifier (''ALE/'' @ game @ ''-v'' @ revision) =
     Inr (lower (takeWhile (\<lambda>c. c \<noteq> CHR ''/'' \<and> c \<noteq> CHR ''-'') game))"
proof -
  have "takeWhile (\<lambda>c. c \<noteq> CHR ''/'' \<and> c \<noteq> CHR ''-'') (game @ CHR ''-'' # CHR ''v'' # revision) =
        takeWhile (\<lambda>c. c \<noteq> CHR ''/'' \<and> c \<noteq> CHR ''-'') game"
    by (rule takeWhile_tail) simp
  then show ?thesis
    by (simp add: get_atari_identifier_value takeWhile_twice)
qed

lemma str_in_ALE: "str_in ''ALE'' (''ALE/'' @ rest)"
  by simp

lemma env_identifier_ok:
  "\<not> str_in ''ALE'' env_name \<or> CHR ''/'' \<in> set env_name \<Longrightarrow>
   \<exists>i. (if str_in ''ALE'' env_name then get_atari_identifier env_name else Inr env_name) = Inr i"
  by (auto simp: get_atari_identifier_value)

subsection \<open>The shape of the handles\<close>

lemma init_vec_env_pixel:
  "\<not> object_centric kw \<Longrightarrow>
   init_vec_env K check_env kw n_envs seed reward_mode train render_mode =
     Inr (VecFrameStack
            (make_atari_env
               \<lparr>a_name = name kw, a_n_envs = n_envs, a_seed = seed,
                a_env_kwargs = [(''render_mode'', KStr render_mode)],
                a_vec_env_cls = (if n_envs > 1 then SubprocVecEnv else DummyVecEnv),
                a_vec_env_kwargs = (if n_envs > 1
                   then Some [(''start_method'', MULTIPROCESSING_START_METHOD K)] else None),
                a_wrapper_kwargs = [(''frame_skip'', frameskip kw)]\<rparr>)
            (framestack kw))"
  by (simp add: init_vec_env_def Let_def)

lemma make_scobi_env_Inr:
  "make_scobi_env nm fd ff ex rank seed silent refresh rm kws = Inr f \<Longrightarrow>
   f = \<lparr>i_name = nm, i_focus_dir = fd, i_pruned_ff_name = ff, i_exclude_properties = ex,
        i_rank = rank, i_seed = seed, i_silent = silent, i_refresh = refresh,
        i_reward_mode = rm, i_kwargs = kws\<rparr>"
  by (auto simp: make_scobi_env_def split: option.splits)

lemma comprehension_make_scobi_env:
  "comprehension (\<lambda>i. make_scobi_env nm fd ff ex i seed silent refresh rm kws) xs = Inr envs \<Longrightarrow>
   envs = map (\<lambda>i. \<lparr>i_name = nm, i_focus_dir = fd, i_pruned_ff_name = ff,
                  i_exclude_properties = ex, i_rank = i, i_seed = seed, i_silent = silent,
                  i_refresh = refresh, i_reward_mode = rm, i_kwargs = kws\<rparr>) xs"
proof (induction xs arbitrary: envs)
  case Nil
  then show ?case by simp
next
  case (Cons x xs)
  from Cons.prems obtain y ys where
    y: "make_scobi_env nm fd ff ex x seed silent refresh rm kws = Inr y"
    and ys: "comprehension (\<lambda>i. make_scobi_env nm fd ff ex i seed silent refresh rm kws) xs = Inr ys"
    and envs: "envs = y # ys"
    by (auto split: sum.splits)
  show ?case
    using make_scobi_env_Inr [OF y] Cons.IH [OF ys] envs by simp
qed

lemma init_vec_env_oc:
  assumes "object_centric kw"
    and "init_vec_env K check_env kw n_envs seed reward_mode train render_mode = Inr h"
  shows "venv h =
       VecEnv (if n_envs > 1 then SubprocVecEnv else DummyVecEnv)
         (map (\<lambda>i. \<lparr>i_name = name kw,
                 i_focus_dir = (if prune_concept kw = Some ''unpruned''
                    then FOCUS_FILES_DIR_UNPRUNED K else FOCUS_FILES_DIR K),
                 i_pruned_ff_name = (if prune_concept kw = Some ''unpruned'' then None
                    else (case get_pruned_focus_file_from_env_name (name kw) of
                            Inl e \<Rightarrow> None | Inr ff \<Rightarrow> Some ff)),
                 i_exclude_properties = exclude_properties kw, i_rank = i, i_seed = seed,
                 i_silent = True, i_refresh = False, i_reward_mode = reward_mode,
                 i_kwargs = [(''render_mode'', KStr render_mode),
                   (''freeze_invisible_obj'', KBool (freeze_invisible_obj kw)),
                   (''render_oc_overlay'', KBool (render_oc_overlay kw))]\<rparr>)
            (range_py n_envs))
         (if n_envs > 1 then Some (MULTIPROCESSING_START_METHOD K) else None) \<and>
     h = (case vec_norm_path kw of
            Some p \<Rightarrow> VecNormalize_load p (venv h) train
          | None \<Rightarrow> VecNormalize (venv h) (normalize_observation kw) (normalize_reward kw) train)"
  using assms
  by (auto simp: init_vec_env_def Let_def
      split: if_splits sum.splits option.splits dest!: comprehension_make_scobi_env)

lemma init_vec_env_unknown_concept:
  "object_centric kw \<Longrightarrow>
   prune_concept kw \<noteq> Some ''default'' \<Longrightarrow> prune_concept kw \<noteq> Some ''unpruned'' \<Longrightarrow>
   init_vec_env K check_env kw n_envs seed reward_mode train render_mode =
     Inl (ValueError (''Unknown prune concept '' @ [CHR 0x27] @ str_opt (prune_concept kw) @
            [CHR 0x27] @ ''.''))"
  by (simp add: init_vec_env_def)

lemma range_py_length: "length (range_py n) = nat n"
  by (simp add: range_py_def)

lemma range_py_nth: "i < nat n \<Longrightarrow> range_py n ! i = int i"
  by (simp add: range_py_def)

lemma init_reset_seed:
  "reset_seed (init f) = Some (i_seed f + i_rank f)"
  by (simp add: init_def Let_def)

lemma init_vec_env_cls:
  assumes "init_vec_env K check_env kw n_envs seed reward_mode train render_mode = Inr h"
  shows "cls_of (venv h) = (if 1 < n_envs then SubprocVecEnv else DummyVecEnv)"
proof (cases "object_centric kw")
  case True
  from init_vec_env_oc [OF True assms] show ?thesis
    by simp
next
  case False
  from init_vec_env_pixel [OF False, of K check_env n_envs seed reward_mode train render_mode] assms
  have "h = VecFrameStack
            (make_atari_env
               \<lparr>a_name = name kw, a_n_envs = n_envs, a_seed = seed,
                a_env_kwargs = [(''render_mode'', KStr render_mode)],
                a_vec_env_cls = (if n_envs > 1 then SubprocVecEnv else DummyVecEnv),
                a_vec_env_kwargs = (if n_envs > 1
                   then Some [(''start_method'', MULTIPROCESSING_START_METHOD K)] else None),
                a_wrapper_kwargs = [(''frame_skip'', frameskip kw)]\<rparr>)
            (framestack kw)"
    by simp
  then show ?thesis
    by simp
qed




subsection \<open>Sample calls\<close>

lemmas eval_defs =
  init_vec_env_def make_scobi_env_def set_random_seed_def default_kwargs_def sample_constants_def
  get_pruned_focus_file_from_env_name_def get_atari_identifier_def index_def lower_def
  lower_char_def upper_chars_def lower_chars_def range_py_def Let_def

lemma sample_oc_3:
  "init_vec_env sample_constants (\<lambda>e. True)
      ((default_kwargs ''ALE/Pong-v5'' True)\<lparr>prune_concept := Some ''default''\<rparr>) 3 10 0 True None =
   Inr (VecNormalize
     (VecEnv SubprocVecEnv
        (map (\<lambda>i. \<lparr>i_name = ''ALE/Pong-v5'', i_focus_dir = ''resources/focusfiles'',
                   i_pruned_ff_name = Some ''pong.yaml'', i_exclude_properties = None,
                   i_rank = i, i_seed = 10, i_silent = True, i_refresh = False,
                   i_reward_mode = 0,
                   i_kwargs = [(''render_mode'', KStr None),
                     (''freeze_invisible_obj'', KBool False),
                     (''render_oc_overlay'', KBool False)]\<rparr>) [0, 1, 2])
        (Some ''spawn''))
     False False True)"
  by (simp add: eval_defs numeral_3_eq_3)

lemma sample_oc_1:
  "init_vec_env sample_constants (\<lambda>e. True)
      ((default_kwargs ''ALE/Pong-v5'' True)\<lparr>prune_concept := Some ''default''\<rparr>) 1 10 0 True None =
   Inr (VecNormalize
     (VecEnv DummyVecEnv
        (map (\<lambda>i. \<lparr>i_name = ''ALE/Pong-v5'', i_focus_dir = ''resources/focusfiles'',
                   i_pruned_ff_name = Some ''pong.yaml'', i_exclude_properties = None,
                   i_rank = i, i_seed = 10, i_silent = True, i_refresh = False,
                   i_reward_mode = 0,
                   i_kwargs = [(''render_mode'', KStr None),
                     (''freeze_invisible_obj'', KBool False),
                     (''render_oc_overlay'', KBool False)]\<rparr>) [0])
        None)
     False False True)"
  by (simp add: eval_defs)

lemma sample_px_3:
  "init_vec_env sample_constants (\<lambda>e. True) (default_kwargs ''ALE/Pong-v5'' False) 3 10 0 True None =
   Inr (VecFrameStack
     (make_atari_env
        \<lparr>a_name = ''ALE/Pong-v5'', a_n_envs = 3, a_seed = 10,
         a_env_kwargs = [(''render_mode'', KStr None)], a_vec_env_cls = SubprocVecEnv,
         a_vec_env_kwargs = Some [(''start_method'', ''spawn'')],
         a_wrapper_kwargs = [(''frame_skip'', 4)]\<rparr>) 1)"
  by (simp add: eval_defs)

lemma sample_px_1:
  "init_vec_env sample_constants (\<lambda>e. True) (default_kwargs ''ALE/Pong-v5'' False) 1 10 0 True None =
   Inr (VecFrameStack
     (make_atari_env
        \<lparr>a_name = ''ALE/Pong-v5'', a_n_envs = 1, a_seed = 10,
         a_env_kwargs = [(''render_mode'', KStr None)], a_vec_env_cls = DummyVecEnv,
         a_vec_env_kwargs = None,
         a_wrapper_kwargs = [(''frame_skip'', 4)]\<rparr>) 1)"
  by (simp add: eval_defs)


lemma sample_oc_seed_out_of_range:
  "init_vec_env sample_constants (\<lambda>e. True)
      ((default_kwargs ''ALE/Pong-v5'' True)\<lparr>prune_concept := Some ''default''\<rparr>)
      1 (2 ^ 32) 0 True None =
   Inl (ValueError ''Seed must be between 0 and 2**32 - 1'')"
  by (simp add: eval_defs)

lemma sample_oc_flag:
  "object_centric ((default_kwargs ''ALE/Pong-v5'' True)\<lparr>prune_concept := Some ''default''\<rparr>)"
  by (simp add: default_kwargs_def)

lemma sample_px_flag: "\<not> object_centric (default_kwargs ''ALE/Pong-v5'' False)"
  by (simp add: default_kwargs_def)

subsection \<open>Focus files\<close>

text \<open>
  C2 as stated fails: the code takes every name that contains \<open>ALE\<close> for an Atari name.
  \<open>WHALE\<close> is not of the form \<open>ALE/<Game>-v<rev>\<close>, and the call raises
  \<open>IndexError\<close> instead of returning \<open>WHALE.yaml\<close>.
\<close>

theorem focus_file_name_counterexample:
  "get_pruned_focus_file_from_env_name ''WHALE'' = Inl IndexError \<and>
   get_pruned_focus_file_from_env_name ''WHALE'' \<noteq> Inr ''WHALE.yaml''"
  by (simp add: get_pruned_focus_file_from_env_name_def get_atari_identifier_def index_def)

text \<open>
  C2 (amended). For every name \<open>ALE/<Game>-v<rev>\<close> the focus file name is the
  lower-cased segment after the \<open>/\<close> and before the next \<open>/\<close> or \<open>-\<close>, with
  \<open>.yaml\<close> appended: the lower-cased game when the game holds neither character. For
  every name that does not contain \<open>ALE\<close> it is the name with \<open>.yaml\<close> appended.
\<close>

theorem focus_file_name:
  "get_pruned_focus_file_from_env_name (''ALE/'' @ game @ ''-v'' @ revision) =
     Inr (lower (takeWhile (\<lambda>c. c \<noteq> CHR ''/'' \<and> c \<noteq> CHR ''-'') game) @ ''.yaml'') \<and>
   (CHR ''/'' \<notin> set game \<and> CHR ''-'' \<notin> set game \<longrightarrow>
      get_pruned_focus_file_from_env_name (''ALE/'' @ game @ ''-v'' @ revision) =
        Inr (lower game @ ''.yaml'')) \<and>
   (\<not> str_in ''ALE'' env_name \<longrightarrow>
      get_pruned_focus_file_from_env_name env_name = Inr (env_name @ ''.yaml''))"
proof -
  have general: "get_pruned_focus_file_from_env_name (''ALE/'' @ game @ ''-v'' @ revision) =
     Inr (lower (takeWhile (\<lambda>c. c \<noteq> CHR ''/'' \<and> c \<noteq> CHR ''-'') game) @ ''.yaml'')"
    unfolding get_pruned_focus_file_from_env_name_def
    using str_in_ALE [of "game @ ''-v'' @ revision"] get_atari_identifier_ALE [of game revision]
    by simp
  have whole: "takeWhile (\<lambda>c. c \<noteq> CHR ''/'' \<and> c \<noteq> CHR ''-'') game = game"
    if "CHR ''/'' \<notin> set game \<and> CHR ''-'' \<notin> set game"
    using that by (intro takeWhile_eq_all_conv [THEN iffD2]) auto
  have other: "get_pruned_focus_file_from_env_name env_name = Inr (env_name @ ''.yaml'')"
    if "\<not> str_in ''ALE'' env_name"
    using that by (simp add: get_pruned_focus_file_from_env_name_def)
  have special: "get_pruned_focus_file_from_env_name (''ALE/'' @ game @ ''-v'' @ revision) =
        Inr (lower game @ ''.yaml'')"
    if c: "CHR ''/'' \<notin> set game \<and> CHR ''-'' \<notin> set game"
    using general by (simp only: whole [OF c])
  show ?thesis
    using general special other by blast
qed

theorem focus_file_name_witness:
  "get_pruned_focus_file_from_env_name ''ALE/Pong-v5'' = Inr ''pong.yaml'' \<and>
   get_pruned_focus_file_from_env_name ''ALE/Ms-Pacman-v5'' = Inr ''ms.yaml'' \<and>
   get_pruned_focus_file_from_env_name ''MyCustomGame'' = Inr ''MyCustomGame.yaml''"
  using focus_file_name [of "''Pong''" "''5''" "''MyCustomGame''"]
    focus_file_name [of "''Ms-Pacman''" "''5''" "''MyCustomGame''"]
  by (simp add: lower_def lower_char_def upper_chars_def lower_chars_def)

text \<open>
  C5 as stated fails: the identifier is derived before the concept is looked at. For a name
  that contains \<open>ALE\<close> and no \<open>/\<close> the call raises \<open>IndexError\<close> under every
  concept: no path for \<open>unpruned\<close> or \<open>default\<close>, no \<open>ValueError\<close> for an unknown
  concept.
\<close>

theorem focus_file_path_counterexample:
  "get_focus_file_path sample_constants ''bogus'' ''ALE-Pong'' = Inl IndexError \<and>
   get_focus_file_path sample_constants ''unpruned'' ''ALE-Pong'' = Inl IndexError \<and>
   get_focus_file_path sample_constants ''default'' ''ALE-Pong'' = Inl IndexError"
  by (simp add: get_focus_file_path_def get_atari_identifier_def index_def)

text \<open>
  C5 (amended). For every environment name whose identifier can be derived (the name does
  not contain \<open>ALE\<close>, or it contains a \<open>/\<close>): the concept \<open>default\<close> gives the
  focus directory with the focus file name of the environment, the concept \<open>unpruned\<close>
  gives the unpruned directory with \<open>default_focus_\<close>, the name without its first four
  characters, and \<open>.yaml\<close>; the call raises exactly when the concept is another value,
  and then a \<open>ValueError\<close>. The object-centric branch of \<open>init_vec_env\<close> fails the same
  way on a prune concept that is neither of the two: it raises the \<open>ValueError\<close> of the
  unknown concept, whatever the name and the other arguments.
\<close>

theorem focus_file_path:
  "(\<not> str_in ''ALE'' env_name \<or> CHR ''/'' \<in> set env_name \<longrightarrow>
      (\<exists>ff. get_pruned_focus_file_from_env_name env_name = Inr ff \<and>
            get_focus_file_path K ''default'' env_name = Inr (Path (FOCUS_FILES_DIR K) ff)) \<and>
      get_focus_file_path K ''unpruned'' env_name =
        Inr (Path (FOCUS_FILES_DIR_UNPRUNED K) (''default_focus_'' @ drop 4 env_name @ ''.yaml'')) \<and>
      ((\<exists>msg. get_focus_file_path K concept env_name = Inl (ValueError msg)) \<longleftrightarrow>
         concept \<noteq> ''default'' \<and> concept \<noteq> ''unpruned'') \<and>
      ((\<exists>e. get_focus_file_path K concept env_name = Inl e) \<longleftrightarrow>
         concept \<noteq> ''default'' \<and> concept \<noteq> ''unpruned'')) \<and>
   (object_centric kw \<and>
    prune_concept kw \<noteq> Some ''default'' \<and> prune_concept kw \<noteq> Some ''unpruned'' \<longrightarrow>
      init_vec_env K check_env kw n_envs seed reward_mode train render_mode =
        Inl (ValueError (''Unknown prune concept '' @ [CHR 0x27] @ str_opt (prune_concept kw) @
               [CHR 0x27] @ ''.'')))"
proof (intro conjI impI)
  assume ok: "\<not> str_in ''ALE'' env_name \<or> CHR ''/'' \<in> set env_name"
  then obtain i where i:
    "(if str_in ''ALE'' env_name then get_atari_identifier env_name else Inr env_name) = Inr i"
    using env_identifier_ok by blast
  show "\<exists>ff. get_pruned_focus_file_from_env_name env_name = Inr ff \<and>
            get_focus_file_path K ''default'' env_name = Inr (Path (FOCUS_FILES_DIR K) ff)"
    by (simp add: get_pruned_focus_file_from_env_name_def get_focus_file_path_def i)
  show "get_focus_file_path K ''unpruned'' env_name =
        Inr (Path (FOCUS_FILES_DIR_UNPRUNED K) (''default_focus_'' @ drop 4 env_name @ ''.yaml''))"
    by (simp add: get_focus_file_path_def i)
  show "(\<exists>msg. get_focus_file_path K concept env_name = Inl (ValueError msg)) \<longleftrightarrow>
         concept \<noteq> ''default'' \<and> concept \<noteq> ''unpruned''"
    by (simp add: get_focus_file_path_def i)
  show "(\<exists>e. get_focus_file_path K concept env_name = Inl e) \<longleftrightarrow>
         concept \<noteq> ''default'' \<and> concept \<noteq> ''unpruned''"
    by (simp add: get_focus_file_path_def i)
next
  assume "object_centric kw \<and>
    prune_concept kw \<noteq> Some ''default'' \<and> prune_concept kw \<noteq> Some ''unpruned''"
  then show "init_vec_env K check_env kw n_envs seed reward_mode train render_mode =
        Inl (ValueError (''Unknown prune concept '' @ [CHR 0x27] @ str_opt (prune_concept kw) @
               [CHR 0x27] @ ''.''))"
    by (simp add: init_vec_env_unknown_concept)
qed

theorem focus_file_path_witness:
  "get_focus_file_path sample_constants ''default'' ''ALE/Breakout-v5'' =
     Inr (Path ''resources/focusfiles'' ''breakout.yaml'') \<and>
   get_focus_file_path sample_constants ''unpruned'' ''ALE/Breakout-v5'' =
     Inr (Path ''resources/focusfiles_unpruned'' ''default_focus_Breakout-v5.yaml'') \<and>
   get_focus_file_path sample_constants ''bogus'' ''ALE/Breakout-v5'' =
     Inl (ValueError ''Unknown prune concept bogus given.'') \<and>
   get_focus_file_path sample_constants ''default'' ''MyCustomGame'' =
     Inr (Path ''resources/focusfiles'' ''MyCustomGame.yaml'') \<and>
   init_vec_env sample_constants (\<lambda>e. True)
       ((default_kwargs ''ALE/Breakout-v5'' True)\<lparr>prune_concept := Some ''bogus''\<rparr>)
       2 0 0 False None =
     Inl (ValueError (''Unknown prune concept '' @ [CHR 0x27] @ ''bogus'' @ [CHR 0x27] @ ''.''))"
  using focus_file_path [of "''ALE/Breakout-v5''" sample_constants "''bogus''"
      "(default_kwargs ''ALE/Breakout-v5'' True)\<lparr>prune_concept := Some ''bogus''\<rparr>"
      "\<lambda>e. True" 2 0 0 False None]
    focus_file_path [of "''MyCustomGame''" sample_constants "''bogus''"
      "(default_kwargs ''ALE/Breakout-v5'' True)\<lparr>prune_concept := Some ''bogus''\<rparr>"
      "\<lambda>e. True" 2 0 0 False None]
  by (simp add: get_focus_file_path_def get_pruned_focus_file_from_env_name_def
      get_atari_identifier_def index_def lower_def lower_char_def upper_chars_def
      lower_chars_def sample_constants_def init_vec_env_def default_kwargs_def str_opt_def)

subsection \<open>Vectorized environments\<close>



text \<open>
  C8. In both branches of \<open>init_vec_env\<close> the container is of the parallel class exactly
  when \<open>n_envs > 1\<close>, and, for a container of at least one environment, of the sequential
  class exactly when \<open>n_envs = 1\<close>.
\<close>

theorem init_vec_env_container_kind:
  "init_vec_env K check_env kw n_envs seed reward_mode train render_mode = Inr h \<Longrightarrow>
   (cls_of (venv h) = SubprocVecEnv \<longleftrightarrow> 1 < n_envs) \<and>
   (1 \<le> n_envs \<longrightarrow> (cls_of (venv h) = DummyVecEnv \<longleftrightarrow> n_envs = 1))"
  by (auto simp: init_vec_env_cls split: if_splits)

theorem init_vec_env_container_kind_witness:
  "cls_of (venv (projr (init_vec_env sample_constants (\<lambda>e. True)
      ((default_kwargs ''ALE/Pong-v5'' True)\<lparr>prune_concept := Some ''default''\<rparr>)
      3 10 0 True None))) = SubprocVecEnv \<and>
   cls_of (venv (projr (init_vec_env sample_constants (\<lambda>e. True)
      ((default_kwargs ''ALE/Pong-v5'' True)\<lparr>prune_concept := Some ''default''\<rparr>)
      1 10 0 True None))) = DummyVecEnv \<and>
   cls_of (venv (projr (init_vec_env sample_constants (\<lambda>e. True)
      (default_kwargs ''ALE/Pong-v5'' False) 3 10 0 True None))) = SubprocVecEnv \<and>
   cls_of (venv (projr (init_vec_env sample_constants (\<lambda>e. True)
      (default_kwargs ''ALE/Pong-v5'' False) 1 10 0 True None))) = DummyVecEnv"
  using init_vec_env_container_kind [OF sample_oc_3] init_vec_env_container_kind [OF sample_oc_1]
    init_vec_env_container_kind [OF sample_px_3] init_vec_env_container_kind [OF sample_px_1]
  by (simp add: sample_oc_3 sample_oc_1 sample_px_3 sample_px_1)

text \<open>
  C9. In object-centric mode the container holds exactly \<open>n_envs\<close> factories; the
  factory at position \<open>i\<close> has rank \<open>i\<close> and base seed \<open>seed\<close>, and its call
  returns the monitored object-centric environment of the given name, reset with seed
  \<open>seed + i\<close>; the reset seeds of the factories are pairwise distinct.
\<close>

theorem init_vec_env_factories:
  assumes "object_centric kw"
    and "init_vec_env K check_env kw n_envs seed reward_mode train render_mode = Inr h"
  shows "length (env_fns (venv h)) = nat n_envs \<and>
     (\<forall>i < nat n_envs.
        i_rank (env_fns (venv h) ! i) = int i \<and>
        i_seed (env_fns (venv h) ! i) = seed \<and>
        reset_seed (init (env_fns (venv h) ! i)) = Some (seed + int i) \<and>
        se_name (env (init (env_fns (venv h) ! i))) = name kw) \<and>
     distinct (map (\<lambda>f. reset_seed (init f)) (env_fns (venv h)))"
proof -
  let ?mk = "\<lambda>i. \<lparr>i_name = name kw,
                 i_focus_dir = (if prune_concept kw = Some ''unpruned''
                    then FOCUS_FILES_DIR_UNPRUNED K else FOCUS_FILES_DIR K),
                 i_pruned_ff_name = (if prune_concept kw = Some ''unpruned'' then None
                    else (case get_pruned_focus_file_from_env_name (name kw) of
                            Inl e \<Rightarrow> None | Inr ff \<Rightarrow> Some ff)),
                 i_exclude_properties = exclude_properties kw, i_rank = i, i_seed = seed,
                 i_silent = True, i_refresh = False, i_reward_mode = reward_mode,
                 i_kwargs = [(''render_mode'', KStr render_mode),
                   (''freeze_invisible_obj'', KBool (freeze_invisible_obj kw)),
                   (''render_oc_overlay'', KBool (render_oc_overlay kw))]\<rparr>"
  have fns: "env_fns (venv h) = map ?mk (range_py n_envs)"
    using init_vec_env_oc [OF assms] by simp
  have len: "length (env_fns (venv h)) = nat n_envs"
    by (simp add: fns range_py_length)
  have each: "i_rank (env_fns (venv h) ! i) = int i \<and>
        i_seed (env_fns (venv h) ! i) = seed \<and>
        reset_seed (init (env_fns (venv h) ! i)) = Some (seed + int i) \<and>
        se_name (env (init (env_fns (venv h) ! i))) = name kw" if "i < nat n_envs" for i
    using that
    by (simp add: fns range_py_length range_py_nth init_def Let_def)
  have seeds: "map (\<lambda>f. reset_seed (init f)) (env_fns (venv h)) =
      map (\<lambda>i. Some (seed + int i)) [0..<nat n_envs]"
    by (simp add: fns range_py_def init_reset_seed comp_def)
  have "distinct (map (\<lambda>i. Some (seed + int i)) [0..<nat n_envs])"
    by (simp add: distinct_map inj_on_def)
  then show ?thesis
    using len each seeds by simp
qed

theorem init_vec_env_factories_witness:
  "length (env_fns (venv (projr (init_vec_env sample_constants (\<lambda>e. True)
      ((default_kwargs ''ALE/Pong-v5'' True)\<lparr>prune_concept := Some ''default''\<rparr>)
      3 10 0 True None)))) = 3 \<and>
   map i_rank (env_fns (venv (projr (init_vec_env sample_constants (\<lambda>e. True)
      ((default_kwargs ''ALE/Pong-v5'' True)\<lparr>prune_concept := Some ''default''\<rparr>)
      3 10 0 True None)))) = [0, 1, 2] \<and>
   map (\<lambda>f. reset_seed (init f)) (env_fns (venv (projr (init_vec_env sample_constants (\<lambda>e. True)
      ((default_kwargs ''ALE/Pong-v5'' True)\<lparr>prune_concept := Some ''default''\<rparr>)
      3 10 0 True None)))) = [Some 10, Some 11, Some 12]"
  using init_vec_env_factories [OF sample_oc_flag sample_oc_3]
  by (simp add: sample_oc_3 init_def)

text \<open>
  C10. With \<open>object_centric\<close> false, \<open>init_vec_env\<close> returns the frame-stacking
  wrapper of depth \<open>framestack\<close> around the container of the pixel builder, called with
  the name, \<open>n_envs\<close>, the seed, the render mode, the container class and the frame skip;
  the handle is not normalization-wrapped, and
  \<open>normalize_observation\<close>, \<open>normalize_reward\<close> and \<open>vec_norm_path\<close> do not change
  the result. With \<open>object_centric\<close> true every handle returned is normalization-wrapped,
  whatever the two toggles.
\<close>

theorem init_vec_env_normalization:
  "(\<not> object_centric kw \<longrightarrow>
      init_vec_env K check_env kw n_envs seed reward_mode train render_mode =
        Inr (VecFrameStack
               (make_atari_env
                  \<lparr>a_name = name kw, a_n_envs = n_envs, a_seed = seed,
                   a_env_kwargs = [(''render_mode'', KStr render_mode)],
                   a_vec_env_cls = (if n_envs > 1 then SubprocVecEnv else DummyVecEnv),
                   a_vec_env_kwargs = (if n_envs > 1
                      then Some [(''start_method'', MULTIPROCESSING_START_METHOD K)] else None),
                   a_wrapper_kwargs = [(''frame_skip'', frameskip kw)]\<rparr>)
               (framestack kw)) \<and>
      (\<forall>h. init_vec_env K check_env kw n_envs seed reward_mode train render_mode = Inr h \<longrightarrow>
           \<not> is_normalized h) \<and>
      init_vec_env K check_env
          (kw\<lparr>normalize_observation := norm_obs, normalize_reward := norm_rew,
              vec_norm_path := norm_path\<rparr>)
          n_envs seed reward_mode train render_mode =
        init_vec_env K check_env kw n_envs seed reward_mode train render_mode) \<and>
   (object_centric kw \<and>
    init_vec_env K check_env kw n_envs seed reward_mode train render_mode = Inr h \<longrightarrow>
      is_normalized h \<and>
      h = (case vec_norm_path kw of
             Some p \<Rightarrow> VecNormalize_load p (venv h) train
           | None \<Rightarrow> VecNormalize (venv h) (normalize_observation kw) (normalize_reward kw)
                       train))"
proof (intro conjI impI)
  assume px: "\<not> object_centric kw"
  show eq: "init_vec_env K check_env kw n_envs seed reward_mode train render_mode =
        Inr (VecFrameStack
               (make_atari_env
                  \<lparr>a_name = name kw, a_n_envs = n_envs, a_seed = seed,
                   a_env_kwargs = [(''render_mode'', KStr render_mode)],
                   a_vec_env_cls = (if n_envs > 1 then SubprocVecEnv else DummyVecEnv),
                   a_vec_env_kwargs = (if n_envs > 1
                      then Some [(''start_method'', MULTIPROCESSING_START_METHOD K)] else None),
                   a_wrapper_kwargs = [(''frame_skip'', frameskip kw)]\<rparr>)
               (framestack kw))"
    by (rule init_vec_env_pixel [OF px])
  show "\<forall>h. init_vec_env K check_env kw n_envs seed reward_mode train render_mode = Inr h \<longrightarrow>
           \<not> is_normalized h"
    unfolding eq by auto
  have "\<not> object_centric (kw\<lparr>normalize_observation := norm_obs, normalize_reward := norm_rew,
              vec_norm_path := norm_path\<rparr>)"
    using px by simp
  from init_vec_env_pixel [OF this] eq
  show "init_vec_env K check_env
          (kw\<lparr>normalize_observation := norm_obs, normalize_reward := norm_rew,
              vec_norm_path := norm_path\<rparr>)
          n_envs seed reward_mode train render_mode =
        init_vec_env K check_env kw n_envs seed reward_mode train render_mode"
    by simp
next
  assume a: "object_centric kw \<and>
    init_vec_env K check_env kw n_envs seed reward_mode train render_mode = Inr h"
  then show shape: "h = (case vec_norm_path kw of
            Some p \<Rightarrow> VecNormalize_load p (venv h) train
          | None \<Rightarrow> VecNormalize (venv h) (normalize_observation kw) (normalize_reward kw) train)"
    using init_vec_env_oc by blast
  then show "is_normalized h"
    by (cases "vec_norm_path kw") (metis is_normalized.simps(1) option.simps(4),
        metis is_normalized.simps(2) option.simps(5))
qed

theorem init_vec_env_normalization_witness:
  "init_vec_env sample_constants (\<lambda>e. True)
      ((default_kwargs ''ALE/Pong-v5'' False)
         \<lparr>normalize_observation := True, normalize_reward := True,
          vec_norm_path := Some ''vecnormalize.pkl''\<rparr>) 3 10 0 True None =
   init_vec_env sample_constants (\<lambda>e. True) (default_kwargs ''ALE/Pong-v5'' False) 3 10 0 True None \<and>
   init_vec_env sample_constants (\<lambda>e. True) (default_kwargs ''ALE/Pong-v5'' False) 3 10 0 True None =
     Inr (VecFrameStack
       (make_atari_env
          \<lparr>a_name = ''ALE/Pong-v5'', a_n_envs = 3, a_seed = 10,
           a_env_kwargs = [(''render_mode'', KStr None)], a_vec_env_cls = SubprocVecEnv,
           a_vec_env_kwargs = Some [(''start_method'', ''spawn'')],
           a_wrapper_kwargs = [(''frame_skip'', 4)]\<rparr>) 1) \<and>
   \<not> is_normalized (projr (init_vec_env sample_constants (\<lambda>e. True)
      (default_kwargs ''ALE/Pong-v5'' False) 3 10 0 True None)) \<and>
   is_normalized (projr (init_vec_env sample_constants (\<lambda>e. True)
      ((default_kwargs ''ALE/Pong-v5'' True)\<lparr>prune_concept := Some ''default''\<rparr>)
      3 10 0 True None))"
  using init_vec_env_normalization [where kw = "default_kwargs ''ALE/Pong-v5'' False"
      and K = sample_constants and check_env = "\<lambda>e. True" and n_envs = 3 and seed = 10
      and reward_mode = 0 and train = True and render_mode = None and norm_obs = True
      and norm_rew = True and norm_path = "Some ''vecnormalize.pkl''"]
    init_vec_env_normalization [where
      kw = "(default_kwargs ''ALE/Pong-v5'' True)\<lparr>prune_concept := Some ''default''\<rparr>"
      and K = sample_constants and check_env = "\<lambda>e. True" and n_envs = 3 and seed = 10
      and reward_mode = 0 and train = True and render_mode = None]
  by (simp add: sample_oc_3 sample_px_3 sample_oc_flag sample_px_flag)

end
